theory Spec2Isabelle
  imports Complex_Main "HOL-Library.Log_Nat"
begin

section \<open>Data model of the synchronization store\<close>

text \<open>
  Embedding of \<^verbatim>\<open>frontend/src/domain/diceConfig/types/models.ts\<close> and
  \<^verbatim>\<open>frontend/src/domain/diceConfig/stores/diceConfigStore.ts\<close>.
  JavaScript numbers that hold counts, side counts and epoch milliseconds are integers
  (\<open>int\<close>); the per-face probability is the \<open>real\<close> that the double stands for.  The two fields
  \<^verbatim>\<open>probabilityRange.min\<close> and \<^verbatim>\<open>probabilityRange.max\<close> of the nested object are the
  record fields \<open>probabilityRange_min\<close> and \<open>probabilityRange_max\<close>.  The fields of
  \<^verbatim>\<open>SessionConfig\<close> that share a name with a field of \<^verbatim>\<open>DiceConfig\<close> or of the store carry the
  prefix \<open>sc_\<close>.
\<close>

datatype storage_type = LocalStorage | SessionStorage | Unavailable

datatype selection_method = Predefined | Custom

record DiceConfig =
  diceSides :: int
  selectionMethod :: selection_method
  probabilityRange_min :: int
  probabilityRange_max :: int
  individualProbability :: real
  displayFormat :: string

record SessionConfig =
  sc_diceSides :: int
  sc_selectionMethod :: selection_method
  timestamp :: int
  sc_storageType :: storage_type
  syncKey :: string

text \<open>\<^verbatim>\<open>Partial<SessionConfig>\<close>: every field present or absent.\<close>

record SessionConfig_partial =
  upd_diceSides :: "int option"
  upd_selectionMethod :: "selection_method option"
  upd_timestamp :: "int option"
  upd_storageType :: "storage_type option"
  upd_syncKey :: "string option"

record DiceConfigStore =
  config :: "DiceConfig option"
  sessionConfig :: "SessionConfig option"
  storageType :: storage_type
  syncRetryCount :: int
  pollingActive :: bool

text \<open>
  What an action reads from its environment: \<^verbatim>\<open>Date.now()\<close> as read by the action
  itself, \<^verbatim>\<open>Date.now()\<close> as read inside \<^verbatim>\<open>generateSyncKey\<close>, and the text that the template
  literal makes of \<^verbatim>\<open>Math.random()\<close>.
\<close>

record clock =
  now :: int
  key_now :: int
  math_random :: string


text \<open>
  Decimal rendering of an integer, as a template literal renders a JavaScript number
  that is an integer below \<open>10\<^sup>2\<^sup>1\<close> in absolute value.
\<close>

definition digit_char :: "nat \<Rightarrow> char" where
  "digit_char d = ''0123456789'' ! d"

fun digits :: "nat \<Rightarrow> string" where
  "digits n = (if n < 10 then [digit_char n] else digits (n div 10) @ [digit_char (n mod 10)])"

declare digits.simps [simp del]

definition number_to_string :: "int \<Rightarrow> string" where
  "number_to_string i = (if i < 0 then CHR ''-'' # digits (nat (- i)) else digits (nat i))"

definition generateSyncKey :: "clock \<Rightarrow> string" where
  "generateSyncKey c = ''dice-config-'' @ number_to_string (key_now c) @ ''-'' @ math_random c"


section \<open>Store actions\<close>

text \<open>
  The store is created inside \<^verbatim>\<open>persist(...)\<close> with the default medium, so every \<^verbatim>\<open>set\<close>
  first replaces the state (and calls the subscribers) and then writes the persisted part
  of the store (\<open>partialize\<close> below) with \<^verbatim>\<open>localStorage.setItem\<close>.  Where that call throws,
  \<^verbatim>\<open>set\<close> throws after the state has been replaced.  An action therefore either returns or
  throws, and in both cases leaves a store behind.
\<close>

datatype js_error = SyntaxError | TypeError | StorageError

datatype 'a completion = Returned 'a | Thrown js_error 'a

definition store_of :: "'a completion \<Rightarrow> 'a" where
  "store_of r = (case r of Returned st \<Rightarrow> st | Thrown e st \<Rightarrow> st)"

definition returned :: "'a completion \<Rightarrow> bool" where
  "returned r = (case r of Returned st \<Rightarrow> True | Thrown e st \<Rightarrow> False)"

text \<open>Sequencing of two statements: the second runs only when the first has returned.\<close>

definition and_then :: "'a completion \<Rightarrow> ('a \<Rightarrow> 'a completion) \<Rightarrow> 'a completion" where
  "and_then r f = (case r of Returned st \<Rightarrow> f st | Thrown e st \<Rightarrow> Thrown e st)"

text \<open>What the write of the \<^verbatim>\<open>persist\<close> middleware does in the tab.\<close>

datatype persist_write = Write_succeeds | Write_throws

text \<open>\<^verbatim>\<open>set\<close>, given the state it installs.\<close>

definition set_state :: "persist_write \<Rightarrow> DiceConfigStore \<Rightarrow> DiceConfigStore completion" where
  "set_state w st' = (case w of Write_succeeds \<Rightarrow> Returned st' | Write_throws \<Rightarrow> Thrown StorageError st')"

definition setConfig ::
    "persist_write \<Rightarrow> clock \<Rightarrow> DiceConfig \<Rightarrow> DiceConfigStore \<Rightarrow> DiceConfigStore completion" where
  "setConfig w c cfg st =
     set_state w
       (st\<lparr>config := Some cfg,
           sessionConfig := Some \<lparr>sc_diceSides = diceSides cfg,
                                   sc_selectionMethod = selectionMethod cfg,
                                   timestamp = now c,
                                   sc_storageType = storageType st,
                                   syncKey = generateSyncKey c\<rparr>\<rparr>)"

text \<open>The object spread \<^verbatim>\<open>{...current, ...updates}\<close>.\<close>

definition spread :: "SessionConfig \<Rightarrow> SessionConfig_partial \<Rightarrow> SessionConfig" where
  "spread current updates =
     \<lparr>sc_diceSides = (case upd_diceSides updates of None \<Rightarrow> sc_diceSides current | Some v \<Rightarrow> v),
      sc_selectionMethod =
        (case upd_selectionMethod updates of None \<Rightarrow> sc_selectionMethod current | Some v \<Rightarrow> v),
      timestamp = (case upd_timestamp updates of None \<Rightarrow> timestamp current | Some v \<Rightarrow> v),
      sc_storageType =
        (case upd_storageType updates of None \<Rightarrow> sc_storageType current | Some v \<Rightarrow> v),
      syncKey = (case upd_syncKey updates of None \<Rightarrow> syncKey current | Some v \<Rightarrow> v)\<rparr>"

definition updateSessionConfig ::
    "persist_write \<Rightarrow> clock \<Rightarrow> SessionConfig_partial \<Rightarrow> DiceConfigStore
       \<Rightarrow> DiceConfigStore completion" where
  "updateSessionConfig w c updates st =
     (case sessionConfig st of
        None \<Rightarrow> Returned st
      | Some current \<Rightarrow>
          set_state w (st\<lparr>sessionConfig := Some ((spread current updates)\<lparr>timestamp := now c\<rparr>)\<rparr>))"


definition incrementSyncRetry :: "persist_write \<Rightarrow> DiceConfigStore \<Rightarrow> DiceConfigStore completion" where
  "incrementSyncRetry w st =
     (let count = syncRetryCount st + 1
      in and_then (set_state w (st\<lparr>syncRetryCount := count\<rparr>))
           (\<lambda>st1. if count \<ge> 3 then set_state w (st1\<lparr>pollingActive := True\<rparr>) else Returned st1))"

definition resetSyncRetry :: "persist_write \<Rightarrow> DiceConfigStore \<Rightarrow> DiceConfigStore completion" where
  "resetSyncRetry w st = set_state w (st\<lparr>syncRetryCount := 0, pollingActive := False\<rparr>)"

definition setPollingActive ::
    "persist_write \<Rightarrow> bool \<Rightarrow> DiceConfigStore \<Rightarrow> DiceConfigStore completion" where
  "setPollingActive w active st = set_state w (st\<lparr>pollingActive := active\<rparr>)"

definition clearConfig :: "persist_write \<Rightarrow> DiceConfigStore \<Rightarrow> DiceConfigStore completion" where
  "clearConfig w st =
     set_state w
       (st\<lparr>config := None, sessionConfig := None, syncRetryCount := 0, pollingActive := False\<rparr>)"

text \<open>
  The store as \<^verbatim>\<open>create\<close> builds it in a tab whose \<^verbatim>\<open>localStorage\<close> works and holds no
  record.
\<close>

definition initial_store :: DiceConfigStore where
  "initial_store = \<lparr>config = None, sessionConfig = None, storageType = LocalStorage,
                     syncRetryCount = 0, pollingActive = False\<rparr>"

text \<open>
  The store as \<^verbatim>\<open>create\<close> builds it in a tab whose \<^verbatim>\<open>localStorage\<close> throws on write while
  its \<^verbatim>\<open>sessionStorage\<close> works: \<^verbatim>\<open>getStorageType()\<close> has answered \<^verbatim>\<open>'sessionStorage'\<close>.
\<close>

definition fallback_store :: DiceConfigStore where
  "fallback_store = \<lparr>config = None, sessionConfig = None, storageType = SessionStorage,
                      syncRetryCount = 0, pollingActive = False\<rparr>"

section \<open>Cross-tab notification, polling fallback, load\<close>

text \<open>
  A string handed to \<^verbatim>\<open>JSON.parse\<close> is represented by what \<^verbatim>\<open>JSON.parse\<close> makes of it.
  The parsed value is kept at the shape the handlers look at: JSON \<^verbatim>\<open>null\<close>; a value
  whose \<^verbatim>\<open>state\<close> property is \<^verbatim>\<open>undefined\<close> or \<^verbatim>\<open>null\<close>; or a value with a \<^verbatim>\<open>state\<close>, whose
  \<^verbatim>\<open>config\<close> and \<^verbatim>\<open>sessionConfig\<close> are typed as the persisted record types them
  (\<^verbatim>\<open>DiceConfig | null\<close>, \<^verbatim>\<open>SessionConfig | null\<close>; an absent property reads as \<open>None\<close>).
\<close>

datatype parsed = PNull | PNoState | PState "DiceConfig option" "SessionConfig option"

datatype json_text = EmptyString | Malformed | Json parsed

type_synonym console = "(string \<times> js_error) list"

definition JSON_parse :: "json_text \<Rightarrow> js_error + parsed" where
  "JSON_parse t = (case t of EmptyString \<Rightarrow> Inl SyntaxError
                   | Malformed \<Rightarrow> Inl SyntaxError
                   | Json v \<Rightarrow> Inr v)"

text \<open>The optional chain \<^verbatim>\<open>v?.state?.sessionConfig\<close>; \<open>None\<close> is a falsy result.\<close>

definition state_sessionConfig :: "parsed \<Rightarrow> SessionConfig option" where
  "state_sessionConfig v = (case v of PState cfg sc \<Rightarrow> sc | _ \<Rightarrow> None)"

text \<open>\<^verbatim>\<open>v.state.config\<close>, which throws a \<^verbatim>\<open>TypeError\<close> when \<^verbatim>\<open>v\<close> or \<^verbatim>\<open>v.state\<close> is nullish.\<close>

definition state_config :: "parsed \<Rightarrow> js_error + DiceConfig option" where
  "state_config v = (case v of PState cfg sc \<Rightarrow> Inr cfg | _ \<Rightarrow> Inl TypeError)"

text \<open>\<^verbatim>\<open>s.sessionConfig?.timestamp || 0\<close>.\<close>

definition timestamp_or_0 :: "SessionConfig option \<Rightarrow> int" where
  "timestamp_or_0 sc = (case sc of None \<Rightarrow> 0 | Some s \<Rightarrow> if timestamp s = 0 then 0 else timestamp s)"

text \<open>
  \<^verbatim>\<open>store.setConfig(c); store.resetSyncRetry()\<close> where \<^verbatim>\<open>c\<close> may be \<^verbatim>\<open>null\<close> at run time:
  \<^verbatim>\<open>setConfig\<close> then throws on \<^verbatim>\<open>config.diceSides\<close> before it has set anything.  Where
  \<^verbatim>\<open>setConfig\<close> throws, \<^verbatim>\<open>resetSyncRetry\<close> is not reached.
\<close>

definition adopt ::
    "persist_write \<Rightarrow> clock \<Rightarrow> DiceConfig option \<Rightarrow> DiceConfigStore
       \<Rightarrow> DiceConfigStore completion" where
  "adopt w c cfg st = (case cfg of None \<Rightarrow> Thrown TypeError st
                       | Some v \<Rightarrow> and_then (setConfig w c v st) (resetSyncRetry w))"

record StorageEvent =
  key :: "string option"
  newValue :: "json_text option"

text \<open>
  The \<^verbatim>\<open>try\<close> block of the storage event listener, for an event with the store's key: it
  returns, or throws with the store as it is at the throw.
\<close>

definition storage_listener_try ::
    "persist_write \<Rightarrow> clock \<Rightarrow> StorageEvent \<Rightarrow> DiceConfigStore \<Rightarrow> DiceConfigStore completion" where
  "storage_listener_try w c event store =
     (case (case newValue event of
              None \<Rightarrow> Inr PNull
            | Some t \<Rightarrow> if t = EmptyString then Inr PNull else JSON_parse t) of
        Inl e \<Rightarrow> Thrown e store
      | Inr v \<Rightarrow>
          (case state_sessionConfig v of
             None \<Rightarrow> Returned store
           | Some sc \<Rightarrow>
               (let newTimestamp = timestamp sc;
                    currentTimestamp = timestamp_or_0 (sessionConfig store)
                in if newTimestamp > currentTimestamp
                   then (case state_config v of
                           Inl e \<Rightarrow> Thrown e store
                         | Inr cfg \<Rightarrow> adopt w c cfg store)
                   else Returned store)))"

text \<open>
  The listener: how it completes (with the store it leaves), and what it wrote to
  \<^verbatim>\<open>console.error\<close>.  The \<^verbatim>\<open>catch\<close> block logs and calls \<^verbatim>\<open>incrementSyncRetry\<close> on the store
  of that moment; nothing catches what that call throws.
\<close>

definition storage_listener ::
    "persist_write \<Rightarrow> clock \<Rightarrow> StorageEvent \<Rightarrow> DiceConfigStore
       \<Rightarrow> DiceConfigStore completion \<times> console" where
  "storage_listener w c event store =
     (if key event = Some ''dice-config-store''
      then (case storage_listener_try w c event store of
              Returned store' \<Rightarrow> (Returned store', [])
            | Thrown error store' \<Rightarrow>
                (incrementSyncRetry w store', [(''Storage sync error:'', error)]))
      else (Returned store, []))"

text \<open>
  \<^verbatim>\<open>partialize\<close>: the text that the \<^verbatim>\<open>persist\<close> middleware writes under
  \<^verbatim>\<open>dice-config-store\<close> for a store, and that a storage event or a polling read delivers.
\<close>

definition partialize :: "DiceConfigStore \<Rightarrow> json_text" where
  "partialize st = Json (PState (config st) (sessionConfig st))"

text \<open>
  The subscriber that starts and stops polling.  The interval's callback closes over the
  \<^verbatim>\<open>state\<close> argument of the subscriber call that created it, so the handle
  \<^verbatim>\<open>pollingInterval\<close> is represented by that captured state.  The store library calls
  every subscriber with the new state object after each \<^verbatim>\<open>set\<close>, and never changes a
  state object it has handed out.
\<close>

definition subscriber :: "DiceConfigStore \<Rightarrow> DiceConfigStore option \<Rightarrow> DiceConfigStore option" where
  "subscriber state pollingInterval =
     (if pollingActive state \<and> pollingInterval = None then Some state
      else if \<not> pollingActive state \<and> pollingInterval \<noteq> None then None
      else pollingInterval)"

text \<open>What \<^verbatim>\<open>getItem('dice-config-store')\<close> does on each medium.\<close>

datatype read_result = ReadThrows | ReadValue "json_text option"

record media =
  localStorage_item :: read_result
  sessionStorage_item :: read_result

text \<open>
  \<^verbatim>\<open>storage.getItem('dice-config-store')\<close>, where \<^verbatim>\<open>storage\<close> is \<^verbatim>\<open>localStorage\<close> when
  \<^verbatim>\<open>state.storageType\<close> is \<^verbatim>\<open>'localStorage'\<close> and \<^verbatim>\<open>sessionStorage\<close> otherwise.
\<close>

definition stored_item :: "media \<Rightarrow> DiceConfigStore \<Rightarrow> read_result" where
  "stored_item m state =
     (if storageType state = LocalStorage then localStorage_item m else sessionStorage_item m)"

text \<open>
  The \<^verbatim>\<open>try\<close> block of one polling tick.  \<open>state\<close> is the state captured by the interval,
  \<open>store\<close> is the store when the tick runs: \<^verbatim>\<open>state.storageType\<close> and
  \<^verbatim>\<open>state.sessionConfig\<close> read the captured object, \<^verbatim>\<open>state.setConfig\<close> and
  \<^verbatim>\<open>state.resetSyncRetry\<close> act on the store.
\<close>

definition polling_tick_try ::
    "persist_write \<Rightarrow> clock \<Rightarrow> media \<Rightarrow> DiceConfigStore \<Rightarrow> DiceConfigStore
       \<Rightarrow> DiceConfigStore completion" where
  "polling_tick_try w c m state store =
     (if storageType state = Unavailable then Returned store
      else
        (case stored_item m state of
           ReadThrows \<Rightarrow> Thrown StorageError store
         | ReadValue None \<Rightarrow> Returned store
         | ReadValue (Some stored) \<Rightarrow>
             if stored = EmptyString then Returned store
             else
               (case JSON_parse stored of
                  Inl e \<Rightarrow> Thrown e store
                | Inr v \<Rightarrow>
                    if v = PNull then Thrown TypeError store
                    else
                      (let newTimestamp = timestamp_or_0 (state_sessionConfig v);
                           currentTimestamp = timestamp_or_0 (sessionConfig state)
                       in if newTimestamp > currentTimestamp
                          then (case state_config v of
                                  Inl e \<Rightarrow> Thrown e store
                                | Inr cfg \<Rightarrow> adopt w c cfg store)
                          else Returned store))))"

text \<open>The tick: its \<^verbatim>\<open>catch\<close> block only logs.\<close>

definition polling_tick ::
    "persist_write \<Rightarrow> clock \<Rightarrow> media \<Rightarrow> DiceConfigStore \<Rightarrow> DiceConfigStore
       \<Rightarrow> DiceConfigStore completion \<times> console" where
  "polling_tick w c m state store =
     (case polling_tick_try w c m state store of
        Returned store' \<Rightarrow> (Returned store', [])
      | Thrown error store' \<Rightarrow> (Returned store', [(''Polling sync error:'', error)]))"

text \<open>
  The two storage media as \<^verbatim>\<open>getStorageType\<close> meets them: which calls throw.  The run
  returns the medium chosen and the calls made, in order.
\<close>

datatype storage_op = SetItem storage_type | GetItem storage_type | RemoveItem storage_type

record medium =
  setItem_throws :: bool
  removeItem_throws :: bool

record storage_env =
  local_medium :: medium
  session_medium :: medium

text \<open>One \<^verbatim>\<open>try\<close> body: \<^verbatim>\<open>setItem(testKey, 'test'); removeItem(testKey)\<close>.\<close>

definition storage_test :: "storage_type \<Rightarrow> medium \<Rightarrow> bool \<times> storage_op list" where
  "storage_test which m =
     (if setItem_throws m then (False, [SetItem which])
      else if removeItem_throws m then (False, [SetItem which, RemoveItem which])
      else (True, [SetItem which, RemoveItem which]))"

definition getStorageType_run :: "storage_env \<Rightarrow> storage_type \<times> storage_op list" where
  "getStorageType_run env =
     (case storage_test LocalStorage (local_medium env) of
        (True, ops) \<Rightarrow> (LocalStorage, ops)
      | (False, ops) \<Rightarrow>
          (case storage_test SessionStorage (session_medium env) of
             (True, ops') \<Rightarrow> (SessionStorage, ops @ ops')
           | (False, ops') \<Rightarrow> (Unavailable, ops @ ops')))"

definition getStorageType :: "storage_env \<Rightarrow> storage_type" where
  "getStorageType env = fst (getStorageType_run env)"

text \<open>
  The callback of \<^verbatim>\<open>onRehydrateStorage\<close>, run on the store after the persisted
  \<^verbatim>\<open>config\<close> and \<^verbatim>\<open>sessionConfig\<close> have been merged into it.  \<open>date_now\<close> is the clock as
  \<^verbatim>\<open>isSessionExpired\<close> reads it, \<open>c\<close> the clock of \<^verbatim>\<open>updateSessionConfig\<close>.  Where an action
  throws, the rest of the callback is not run.
\<close>

definition no_updates :: SessionConfig_partial where
  "no_updates = \<lparr>upd_diceSides = None, upd_selectionMethod = None, upd_timestamp = None,
                  upd_storageType = None, upd_syncKey = None\<rparr>"


text \<open>A write of the tab to its own SessionMetadata.\<close>

datatype write_op = SetConfig DiceConfig | UpdateSessionConfig SessionConfig_partial

definition tab_write ::
    "persist_write \<Rightarrow> clock \<Rightarrow> write_op \<Rightarrow> DiceConfigStore \<Rightarrow> DiceConfigStore completion" where
  "tab_write w c wr st = (case wr of SetConfig cfg \<Rightarrow> setConfig w c cfg st
                          | UpdateSessionConfig updates \<Rightarrow> updateSessionConfig w c updates st)"

section \<open>Server-side validation service\<close>

text \<open>
  Embedding of \<^verbatim>\<open>diceConfigService\<close>, \<^verbatim>\<open>diceConfigValidation.ts\<close> and
  \<^verbatim>\<open>constants/dice/diceDefaults.ts\<close>.  A JavaScript number is a real, one of the two
  infinities, or \<^verbatim>\<open>NaN\<close>.  A request body is either no object at all or an object whose
  properties are numbers, strings or anything else (\<open>Other\<close>: absent, \<^verbatim>\<open>null\<close>, a boolean,
  an array, an object).  Strings are strings of ASCII characters.  The user-facing messages
  are the constructors of \<open>message\<close>, in the order: \<^verbatim>\<open>Validation failed\<close>;
  \<^verbatim>\<open>Dice sides must be one of: 4, 6, 8, 10, 12, 20\<close>; \<^verbatim>\<open>Por favor, insira a quantidade de lados\<close>;
  \<^verbatim>\<open>Digite apenas numeros inteiros, sem casas decimais\<close>; \<^verbatim>\<open>Digite apenas numeros inteiros\<close>;
  \<^verbatim>\<open>O dado deve ter pelo menos 2 lados\<close>; \<^verbatim>\<open>Maximo de 1000 lados permitido\<close> (accents
  left out here).
\<close>

datatype js_number = Finite real | PosInfinity | NegInfinity | NaN

datatype js_value = Num js_number | Str string | Other

datatype message =
    Validation_failed
  | Must_be_one_of_4_6_8_10_12_20
  | Insira_a_quantidade_de_lados
  | Inteiros_sem_casas_decimais
  | Apenas_numeros_inteiros
  | Pelo_menos_2_lados
  | Maximo_de_1000_lados

definition MIN_SIDES :: int where "MIN_SIDES = 2"
definition MAX_SIDES :: int where "MAX_SIDES = 1000"

definition DICE_PREDEFINED_OPTIONS_SIDES :: "int list" where
  "DICE_PREDEFINED_OPTIONS_SIDES = [4, 6, 8, 10, 12, 20]"

subsection \<open>Number tests\<close>

definition Number_isInteger :: "js_number \<Rightarrow> bool" where
  "Number_isInteger x = (case x of Finite r \<Rightarrow> of_int \<lfloor>r\<rfloor> = r | _ \<Rightarrow> False)"

definition isNaN :: "js_number \<Rightarrow> bool" where
  "isNaN x = (x = NaN)"

text \<open>\<^verbatim>\<open>x < k\<close> and \<^verbatim>\<open>x > k\<close> for a number \<^verbatim>\<open>x\<close> and an integer constant \<^verbatim>\<open>k\<close>.\<close>

definition js_less :: "js_number \<Rightarrow> int \<Rightarrow> bool" where
  "js_less x k = (case x of Finite r \<Rightarrow> r < of_int k | NegInfinity \<Rightarrow> True | _ \<Rightarrow> False)"

definition js_greater :: "js_number \<Rightarrow> int \<Rightarrow> bool" where
  "js_greater x k = (case x of Finite r \<Rightarrow> r > of_int k | PosInfinity \<Rightarrow> True | _ \<Rightarrow> False)"

subsection \<open>String tests\<close>

definition is_space :: "char \<Rightarrow> bool" where
  "is_space ch = (ch \<in> set [CHR 0x09, CHR 0x0A, CHR 0x0B, CHR 0x0C, CHR 0x0D, CHR '' ''])"

definition trim :: "string \<Rightarrow> string" where
  "trim s = rev (dropWhile is_space (rev (dropWhile is_space s)))"

definition string_includes :: "string \<Rightarrow> char \<Rightarrow> bool" where
  "string_includes s ch = (ch \<in> set s)"

definition is_digit :: "char \<Rightarrow> bool" where
  "is_digit ch = (ch \<in> set ''0123456789'')"

text \<open>The test \<^verbatim>\<open>/^\d+$/\<close>.\<close>

definition only_digits :: "string \<Rightarrow> bool" where
  "only_digits s = (s \<noteq> [] \<and> list_all is_digit s)"

definition digit_value :: "char \<Rightarrow> nat" where
  "digit_value ch = of_char ch - 48"

definition decimal_value :: "string \<Rightarrow> nat" where
  "decimal_value ds = foldl (\<lambda>acc ch. 10 * acc + digit_value ch) 0 ds"

text \<open>
  The Number value of a non-negative integer: integers from \<open>2\<^sup>1\<^sup>0\<^sup>2\<^sup>4 - 2\<^sup>9\<^sup>7\<^sup>0\<close> on round to
  \<^verbatim>\<open>Infinity\<close>.  Below that bound the integer itself stands for the double nearest to it:
  the two agree up to \<open>2\<^sup>5\<^sup>3\<close>, and beyond it the rounding changes neither
  \<^verbatim>\<open>Number.isInteger\<close> nor a comparison with 2 or 1000.
\<close>

definition number_of_nat :: "nat \<Rightarrow> js_number" where
  "number_of_nat n = (if n \<ge> 2 ^ 1024 - 2 ^ 970 then PosInfinity else Finite (of_nat n))"

definition negate :: "js_number \<Rightarrow> js_number" where
  "negate x = (case x of Finite r \<Rightarrow> Finite (- r) | PosInfinity \<Rightarrow> NegInfinity
               | NegInfinity \<Rightarrow> PosInfinity | NaN \<Rightarrow> NaN)"

text \<open>
  \<^verbatim>\<open>parseInt(s, 10)\<close>: leading white space is skipped, one sign is read, then the longest
  run of digits; no digit gives \<^verbatim>\<open>NaN\<close>.
\<close>

definition parseInt :: "string \<Rightarrow> js_number" where
  "parseInt s =
     (let t = dropWhile is_space s;
          negative = (t \<noteq> [] \<and> hd t = CHR ''-'');
          u = (if t \<noteq> [] \<and> (hd t = CHR ''-'' \<or> hd t = CHR ''+'') then tl t else t);
          ds = takeWhile is_digit u
      in if ds = [] then NaN
         else if negative then negate (number_of_nat (decimal_value ds))
         else number_of_nat (decimal_value ds))"

subsection \<open>Schemas\<close>

text \<open>\<^verbatim>\<open>z.number()\<close>: a number other than \<^verbatim>\<open>NaN\<close>.\<close>

definition z_number :: "js_value \<Rightarrow> js_number option" where
  "z_number v = (case v of Num x \<Rightarrow> if x = NaN then None else Some x | _ \<Rightarrow> None)"

text \<open>\<^verbatim>\<open>predefinedSidesSchema\<close>, \<^verbatim>\<open>safeParse(...).success\<close>.\<close>

definition predefinedSidesSchema :: "int \<Rightarrow> bool" where
  "predefinedSidesSchema val = (val \<in> set DICE_PREDEFINED_OPTIONS_SIDES)"

text \<open>
  \<^verbatim>\<open>customSidesSchema\<close> on the integer that \<^verbatim>\<open>setConfigSchema\<close> has let through (its
  first check, \<^verbatim>\<open>int\<close>, passes on every integer): the messages of the failed checks, in
  the order of the checks; none means success.
\<close>

definition customSidesSchema :: "int \<Rightarrow> message list" where
  "customSidesSchema val =
     (if val < MIN_SIDES then [Pelo_menos_2_lados] else [])
     @ (if val > MAX_SIDES then [Maximo_de_1000_lados] else [])"

definition selectionMethodSchema :: "js_value \<Rightarrow> selection_method option" where
  "selectionMethodSchema v =
     (if v = Str ''predefined'' then Some Predefined
      else if v = Str ''custom'' then Some Custom
      else None)"

datatype set_body = SetBody_not_an_object | SetBody js_value js_value

text \<open>
  \<^verbatim>\<open>setConfigSchema\<close>: \<^verbatim>\<open>diceSides\<close> is \<^verbatim>\<open>z.number().int().positive()\<close>; on success the
  data are the integer and the method.  The two arguments of \<open>SetBody\<close> are the
  properties \<^verbatim>\<open>diceSides\<close> and \<^verbatim>\<open>selectionMethod\<close>.
\<close>

definition setConfigSchema :: "set_body \<Rightarrow> (int \<times> selection_method) option" where
  "setConfigSchema body =
     (case body of
        SetBody_not_an_object \<Rightarrow> None
      | SetBody sides method \<Rightarrow>
          (case z_number sides of
             None \<Rightarrow> None
           | Some x \<Rightarrow>
               if Number_isInteger x \<and> js_greater x 0
               then (case selectionMethodSchema method of
                       None \<Rightarrow> None
                     | Some m \<Rightarrow> (case x of Finite r \<Rightarrow> Some (\<lfloor>r\<rfloor>, m) | _ \<Rightarrow> None))
               else None))"

subsection \<open>Service functions\<close>

record ServiceError =
  code :: string
  error_message :: message
  statusCode :: nat

text \<open>
  The integer nearest to \<open>a / b\<close> for \<open>b > 0\<close>, a tie going to the even neighbour.
\<close>

definition round_to_even :: "int \<Rightarrow> int \<Rightarrow> int" where
  "round_to_even a b =
     (let q = a div b; r = a mod b
      in if 2 * r < b then q else if 2 * r > b then q + 1 else if even q then q else q + 1)"

text \<open>
  The number that \<^verbatim>\<open>1 / sides\<close> evaluates to for an integer \<open>sides\<close> from 1 on (and small
  enough that the quotient is a normal double, as every number of sides that passes
  validation is): the quotient rounded to 53 significant bits.  With \<open>2\<^sup>k\<^sup>-\<^sup>1 < sides \<le> 2\<^sup>k\<close>
  the doubles around the quotient are the multiples of \<open>2\<^sup>-\<^sup>5\<^sup>2\<^sup>-\<^sup>k\<close>.
\<close>

definition one_over :: "int \<Rightarrow> real" where
  "one_over sides =
     (let e = nat (52 + bitlen (sides - 1))
      in of_int (round_to_even (2 ^ e) sides) / 2 ^ e)"

definition calculateProbability :: "int \<Rightarrow> int \<times> int \<times> real" where
  "calculateProbability sides = (1, sides, one_over sides)"

definition diceConfigSet :: "set_body \<Rightarrow> ServiceError + DiceConfig" where
  "diceConfigSet body =
     (case setConfigSchema body of
        None \<Rightarrow> Inl \<lparr>code = ''VALIDATION_ERROR'', error_message = Validation_failed,
                     statusCode = 400\<rparr>
      | Some (sides, method) \<Rightarrow>
          (let checked =
                 (if method = Predefined
                  then (if predefinedSidesSchema sides then None
                        else Some \<lparr>code = ''VALIDATION_ERROR'',
                                   error_message = Must_be_one_of_4_6_8_10_12_20,
                                   statusCode = 400\<rparr>)
                  else (case customSidesSchema sides of
                          [] \<Rightarrow> None
                        | m # ms \<Rightarrow> Some \<lparr>code = ''VALIDATION_ERROR'', error_message = m,
                                           statusCode = 400\<rparr>))
           in case checked of
                Some err \<Rightarrow> Inl err
              | None \<Rightarrow>
                  (case calculateProbability sides of
                     (lo, hi, p) \<Rightarrow>
                       Inr \<lparr>diceSides = sides, selectionMethod = method,
                            probabilityRange_min = lo, probabilityRange_max = hi,
                            individualProbability = p,
                            displayFormat = ''D'' @ number_to_string sides\<rparr>)))"

datatype validation_status = VALID | INVALID | PENDING

record DiceConfigValidationResult =
  isValid :: bool
  status :: validation_status
  errorMessage :: "message option"
  errorPriority :: "nat option"

definition invalid :: "message \<Rightarrow> nat \<Rightarrow> DiceConfigValidationResult" where
  "invalid m p = \<lparr>isValid = False, status = INVALID, errorMessage = Some m, errorPriority = Some p\<rparr>"

datatype custom_body = CustomBody_not_an_object | CustomBody js_value

text \<open>
  \<^verbatim>\<open>inputSchema\<close>: \<^verbatim>\<open>customSides\<close> is \<^verbatim>\<open>z.union([z.number(), z.string()])\<close>.
\<close>

definition inputSchema :: "custom_body \<Rightarrow> (js_number + string) option" where
  "inputSchema body =
     (case body of
        CustomBody_not_an_object \<Rightarrow> None
      | CustomBody v \<Rightarrow>
          (case z_number v of
             Some x \<Rightarrow> Some (Inl x)
           | None \<Rightarrow> (case v of Str s \<Rightarrow> Some (Inr s) | _ \<Rightarrow> None)))"

text \<open>The checks that \<^verbatim>\<open>diceConfigValidateCustom\<close> makes on \<^verbatim>\<open>numericValue\<close>.\<close>

definition numeric_checks :: "js_number \<Rightarrow> DiceConfigValidationResult" where
  "numeric_checks numericValue =
     (if isNaN numericValue then invalid Apenas_numeros_inteiros 1
      else if \<not> Number_isInteger numericValue then invalid Inteiros_sem_casas_decimais 1
      else if js_less numericValue MIN_SIDES then invalid Pelo_menos_2_lados 2
      else if js_greater numericValue MAX_SIDES then invalid Maximo_de_1000_lados 2
      else \<lparr>isValid = True, status = VALID, errorMessage = None, errorPriority = None\<rparr>)"

definition diceConfigValidateCustom :: "custom_body \<Rightarrow> DiceConfigValidationResult" where
  "diceConfigValidateCustom body =
     (case inputSchema body of
        None \<Rightarrow> invalid Insira_a_quantidade_de_lados 2
      | Some (Inl customSides) \<Rightarrow> numeric_checks customSides
      | Some (Inr customSides) \<Rightarrow>
          if trim customSides = [] then invalid Insira_a_quantidade_de_lados 2
          else if string_includes customSides CHR ''.'' \<or> string_includes customSides CHR '',''
          then invalid Inteiros_sem_casas_decimais 1
          else if \<not> only_digits customSides then invalid Apenas_numeros_inteiros 1
          else numeric_checks (parseInt customSides))"

section \<open>The validation rules in the words of the specification\<close>

text \<open>
  What a custom-sides input denotes, read off the specification's table and not from the
  service code: nothing (no value, or only white space), something that is not an integer,
  or an integer.  A string denotes an integer when it consists of decimal digits.
\<close>

datatype denotation = Nothing_entered | Not_an_integer | Integer int

definition denotes :: "custom_body \<Rightarrow> denotation" where
  "denotes body =
     (case body of
        CustomBody (Str s) \<Rightarrow>
          if list_all is_space s then Nothing_entered
          else if only_digits s then Integer (int (decimal_value s))
          else Not_an_integer
      | CustomBody (Num (Finite r)) \<Rightarrow>
          if of_int \<lfloor>r\<rfloor> = r then Integer \<lfloor>r\<rfloor> else Not_an_integer
      | CustomBody (Num NaN) \<Rightarrow> Nothing_entered
      | CustomBody (Num x) \<Rightarrow> Not_an_integer
      | _ \<Rightarrow> Nothing_entered)"

text \<open>
  A body that passes server validation, in the words of the claim: the method is
  \<^verbatim>\<open>predefined\<close> and the sides are one of 4, 6, 8, 10, 12, 20, or the method is \<^verbatim>\<open>custom\<close>
  and the sides are an integer in [2, 1000].
\<close>

definition valid_set_body :: "set_body \<Rightarrow> bool" where
  "valid_set_body body =
     (case body of
        SetBody (Num (Finite r)) (Str m) \<Rightarrow>
          (m = ''predefined'' \<and> r \<in> set (map of_int [4, 6, 8, 10, 12, 20]))
          \<or> (m = ''custom'' \<and> of_int \<lfloor>r\<rfloor> = r \<and> 2 \<le> r \<and> r \<le> 1000)
      | _ \<Rightarrow> False)"

text \<open>The string of a selection method.\<close>

definition method_name :: "selection_method \<Rightarrow> string" where
  "method_name m = (case m of Predefined \<Rightarrow> ''predefined'' | Custom \<Rightarrow> ''custom'')"

section \<open>Concrete tabs, records and media\<close>

text \<open>
  Inputs at which the theorems below are evaluated: the configuration the server returns
  for a predefined die, a clock reading, the storage event for a text written under the
  store's key, the record that another tab persists when it calls \<^verbatim>\<open>setConfig\<close> at a
  given time, and three storage environments (both media work; \<^verbatim>\<open>localStorage\<close> throws on
  write; both media throw).
\<close>

definition predefined_dice :: "int \<Rightarrow> DiceConfig" where
  "predefined_dice n =
     \<lparr>diceSides = n, selectionMethod = Predefined, probabilityRange_min = 1,
      probabilityRange_max = n, individualProbability = one_over n,
      displayFormat = ''D'' @ number_to_string n\<rparr>"

definition at_time :: "int \<Rightarrow> clock" where
  "at_time t = \<lparr>now = t, key_now = t, math_random = ''0.5''\<rparr>"

definition notification :: "json_text \<Rightarrow> StorageEvent" where
  "notification t = \<lparr>key = Some ''dice-config-store'', newValue = Some t\<rparr>"

definition remote_record :: "DiceConfig \<Rightarrow> int \<Rightarrow> json_text" where
  "remote_record cfg t =
     partialize (store_of (setConfig Write_succeeds (at_time t) cfg initial_store))"

text \<open>A tab holding the given configuration since the given time.\<close>

definition tab_with :: "DiceConfig \<Rightarrow> int \<Rightarrow> DiceConfigStore" where
  "tab_with cfg t = store_of (setConfig Write_succeeds (at_time t) cfg initial_store)"

definition working_env :: storage_env where
  "working_env = \<lparr>local_medium = \<lparr>setItem_throws = False, removeItem_throws = False\<rparr>,
                   session_medium = \<lparr>setItem_throws = False, removeItem_throws = False\<rparr>\<rparr>"

definition private_mode_env :: storage_env where
  "private_mode_env = \<lparr>local_medium = \<lparr>setItem_throws = True, removeItem_throws = False\<rparr>,
                        session_medium = \<lparr>setItem_throws = False, removeItem_throws = False\<rparr>\<rparr>"

definition blocked_env :: storage_env where
  "blocked_env = \<lparr>local_medium = \<lparr>setItem_throws = True, removeItem_throws = True\<rparr>,
                   session_medium = \<lparr>setItem_throws = True, removeItem_throws = True\<rparr>\<rparr>"

text \<open>
  A tab in polling mode that then writes itself, all of its writes to \<^verbatim>\<open>localStorage\<close>
  succeeding: it sets 20 sides at time 1000000, receives
  three malformed notifications (the third starts polling), and the user then sets 12
  sides at time 1000500.  The media hold the record the tab has persisted for that last
  write.
\<close>

definition polling_started :: DiceConfigStore where
  "polling_started =
     store_of (fst (storage_listener Write_succeeds (at_time 1000300) (notification Malformed)
       (store_of (fst (storage_listener Write_succeeds (at_time 1000200) (notification Malformed)
         (store_of (fst (storage_listener Write_succeeds (at_time 1000100) (notification Malformed)
           (tab_with (predefined_dice 20) 1000000)))))))))"

definition after_local_write :: DiceConfigStore where
  "after_local_write =
     store_of (setConfig Write_succeeds (at_time 1000500) (predefined_dice 12) polling_started)"

definition own_record_media :: media where
  "own_record_media = \<lparr>localStorage_item = ReadValue (Some (partialize after_local_write)),
                        sessionStorage_item = ReadValue None\<rparr>"

text \<open>The decimal numeral of \<open>10\<^sup>3\<^sup>0\<^sup>9\<close>: a one followed by 309 zeros.\<close>

definition huge_digits :: string where
  "huge_digits = CHR ''1'' # replicate 309 CHR ''0''"

section \<open>Completion of the store actions\<close>

lemma store_of_set_state [simp]: "store_of (set_state w st) = st"
  by (cases w) (simp_all add: set_state_def store_of_def)

lemma returned_set_state [simp]: "returned (set_state w st) = (w = Write_succeeds)"
  by (cases w) (simp_all add: set_state_def returned_def)

lemma set_state_succeeds [simp]: "set_state Write_succeeds st = Returned st"
  by (simp add: set_state_def)

lemma set_state_throws [simp]: "set_state Write_throws st = Thrown StorageError st"
  by (simp add: set_state_def)

lemma store_of_simps [simp]: "store_of (Returned st) = st" "store_of (Thrown e st) = st"
  by (simp_all add: store_of_def)

lemma returned_simps [simp]: "returned (Returned st)" "\<not> returned (Thrown e st)"
  by (simp_all add: returned_def)

lemma and_then_simps [simp]: "and_then (Returned st) f = f st" "and_then (Thrown e st) f = Thrown e st"
  by (simp_all add: and_then_def)

lemma timestamp_or_0_eq: "timestamp_or_0 sc = (case sc of None \<Rightarrow> 0 | Some s \<Rightarrow> timestamp s)"
  by (simp add: timestamp_or_0_def split: option.splits)

section \<open>Escalation\<close>

text \<open>
  Where the write of \<^verbatim>\<open>persist\<close> throws, \<^verbatim>\<open>incrementSyncRetry\<close> throws at its first \<^verbatim>\<open>set\<close>: the
  counter is incremented and nothing else happens, whatever the counter has reached.
\<close>

lemma incrementSyncRetry_throws:
  "incrementSyncRetry Write_throws st
     = Thrown StorageError (st\<lparr>syncRetryCount := syncRetryCount st + 1\<rparr>)"
  by (simp add: incrementSyncRetry_def Let_def)

lemma incrementSyncRetry_succeeds:
  "incrementSyncRetry Write_succeeds st
     = Returned (if syncRetryCount st + 1 \<ge> 3
                 then st\<lparr>syncRetryCount := syncRetryCount st + 1, pollingActive := True\<rparr>
                 else st\<lparr>syncRetryCount := syncRetryCount st + 1\<rparr>)"
  by (simp add: incrementSyncRetry_def Let_def)

lemma incrementSyncRetry_count:
  "syncRetryCount (((\<lambda>s. store_of (incrementSyncRetry w s)) ^^ n) st) = syncRetryCount st + int n"
proof (induction n)
  case 0
  show ?case by simp
next
  case (Suc n)
  have "syncRetryCount (store_of (incrementSyncRetry w s)) = syncRetryCount s + 1" for s
    by (cases w) (simp_all add: incrementSyncRetry_throws incrementSyncRetry_succeeds)
  then show ?case using Suc by simp
qed

lemma incrementSyncRetry_polling:
  "pollingActive (((\<lambda>s. store_of (incrementSyncRetry Write_succeeds s)) ^^ n) st)
     = (pollingActive st \<or> (n > 0 \<and> syncRetryCount st + int n \<ge> 3))"
proof (induction n)
  case 0
  show ?case by simp
next
  case (Suc n)
  have "pollingActive (store_of (incrementSyncRetry Write_succeeds s))
          = (pollingActive s \<or> syncRetryCount s + 1 \<ge> 3)" for s
    by (simp add: incrementSyncRetry_succeeds)
  then show ?case
    using Suc incrementSyncRetry_count [where w = Write_succeeds and n = n and st = st] by auto
qed

text \<open>
  The escalation of C4 in a tab whose writes succeed.  From failure counter 0 and polling
  inactive, \<open>n\<close> consecutive calls of \<^verbatim>\<open>incrementSyncRetry\<close> return, leave the counter at \<open>n\<close>
  and make polling active exactly when \<open>n\<close> has reached 3; \<^verbatim>\<open>resetSyncRetry\<close> puts the
  counter back to 0 and polling to inactive from any state.
\<close>

lemma escalation_where_writes_succeed:
  assumes "syncRetryCount st = 0" and "\<not> pollingActive st"
  shows "pollingActive (((\<lambda>s. store_of (incrementSyncRetry Write_succeeds s)) ^^ n) st) = (n \<ge> 3)
         \<and> syncRetryCount (((\<lambda>s. store_of (incrementSyncRetry Write_succeeds s)) ^^ n) st) = int n
         \<and> returned (incrementSyncRetry Write_succeeds s)
         \<and> syncRetryCount (store_of (resetSyncRetry w s)) = 0
         \<and> \<not> pollingActive (store_of (resetSyncRetry w s))"
proof -
  have a: "pollingActive (((\<lambda>s. store_of (incrementSyncRetry Write_succeeds s)) ^^ n) st) = (n \<ge> 3)"
    using assms incrementSyncRetry_polling [of n st] by auto
  have b: "syncRetryCount (((\<lambda>s. store_of (incrementSyncRetry Write_succeeds s)) ^^ n) st) = int n"
    using assms incrementSyncRetry_count [where w = Write_succeeds and n = n and st = st] by simp
  have c: "returned (incrementSyncRetry Write_succeeds s)"
    by (simp add: incrementSyncRetry_succeeds)
  have d: "syncRetryCount (store_of (resetSyncRetry w s)) = 0
           \<and> \<not> pollingActive (store_of (resetSyncRetry w s))"
    by (simp add: resetSyncRetry_def)
  from a b c d show ?thesis by blast
qed

text \<open>
  C4, the code at an input where it departs from the claim.  In a tab whose
  \<^verbatim>\<open>localStorage\<close> throws on write (the one in which \<^verbatim>\<open>getStorageType\<close> answers
  \<^verbatim>\<open>'sessionStorage'\<close>), the store starts with failure counter 0 and polling inactive.
  Each of three consecutive calls of \<^verbatim>\<open>incrementSyncRetry\<close> increments the counter and then
  throws out of its first \<^verbatim>\<open>set\<close>; the third never reaches the \<^verbatim>\<open>set\<close> that would make
  polling active, so after three failures the counter is 3 and polling is still inactive.
  From the same counter a call whose write succeeds makes polling active.
\<close>

theorem escalation_stopped_by_throwing_write:
  "getStorageType private_mode_env = storageType fallback_store
   \<and> syncRetryCount fallback_store = 0 \<and> \<not> pollingActive fallback_store
   \<and> incrementSyncRetry Write_throws fallback_store
       = Thrown StorageError (fallback_store\<lparr>syncRetryCount := 1\<rparr>)
   \<and> incrementSyncRetry Write_throws (fallback_store\<lparr>syncRetryCount := 1\<rparr>)
       = Thrown StorageError (fallback_store\<lparr>syncRetryCount := 2\<rparr>)
   \<and> incrementSyncRetry Write_throws (fallback_store\<lparr>syncRetryCount := 2\<rparr>)
       = Thrown StorageError (fallback_store\<lparr>syncRetryCount := 3\<rparr>)
   \<and> \<not> pollingActive (fallback_store\<lparr>syncRetryCount := 3\<rparr>)
   \<and> pollingActive (store_of (incrementSyncRetry Write_succeeds (fallback_store\<lparr>syncRetryCount := 2\<rparr>)))"
  by (simp add: incrementSyncRetry_throws incrementSyncRetry_succeeds fallback_store_def
      getStorageType_def getStorageType_run_def storage_test_def private_mode_env_def)

section \<open>Load-time expiry\<close>



section \<open>Timestamps of a tab's own writes\<close>

text \<open>
  C5, as amended.  After a write of the tab (\<^verbatim>\<open>setConfig\<close> or \<^verbatim>\<open>updateSessionConfig\<close>) that
  leaves a SessionMetadata, its timestamp is the reading of \<^verbatim>\<open>Date.now()\<close> at that write;
  so after the next write the timestamp is strictly greater exactly when the clock reading
  is strictly greater than at the previous write.
\<close>

theorem write_timestamp_is_clock:
  assumes "sessionConfig (store_of (tab_write p1 c1 w1 st)) = Some s1"
  shows "timestamp s1 = now c1
     \<and> (\<exists>s2. sessionConfig (store_of (tab_write p2 c2 w2 (store_of (tab_write p1 c1 w1 st)))) = Some s2
            \<and> timestamp s2 = now c2
            \<and> (timestamp s1 < timestamp s2) = (now c1 < now c2))"
  using assms
  by (auto simp add: tab_write_def setConfig_def updateSessionConfig_def
      split: write_op.splits option.splits)

theorem write_timestamp_is_clock_witness:
  "\<exists>s1 s2. sessionConfig (store_of (tab_write Write_succeeds (at_time 1000)
                 (SetConfig (predefined_dice 20)) initial_store)) = Some s1
     \<and> sessionConfig (store_of (tab_write Write_succeeds (at_time 1001) (UpdateSessionConfig no_updates)
          (store_of (tab_write Write_succeeds (at_time 1000) (SetConfig (predefined_dice 20))
             initial_store)))) = Some s2
     \<and> timestamp s1 = 1000 \<and> timestamp s2 = 1001 \<and> timestamp s1 < timestamp s2"
proof -
  obtain s1 where s1: "sessionConfig (store_of (tab_write Write_succeeds (at_time 1000)
                         (SetConfig (predefined_dice 20)) initial_store)) = Some s1"
    by (simp add: tab_write_def setConfig_def)
  show ?thesis
    using s1 write_timestamp_is_clock [OF s1, of Write_succeeds "at_time 1001"
        "UpdateSessionConfig no_updates"]
    by (auto simp add: at_time_def)
qed

text \<open>
  C5 as stated fails: two writes within the same millisecond leave the same timestamp.
\<close>

theorem write_same_millisecond_counterexample:
  "map_option timestamp
     (sessionConfig (store_of (tab_write Write_succeeds (at_time 1000)
        (SetConfig (predefined_dice 20)) initial_store))) = Some 1000
   \<and> map_option timestamp
     (sessionConfig (store_of (tab_write Write_succeeds (at_time 1000) (SetConfig (predefined_dice 8))
        (store_of (tab_write Write_succeeds (at_time 1000) (SetConfig (predefined_dice 20))
           initial_store))))) = Some 1000"
  by (simp add: tab_write_def setConfig_def at_time_def)

section \<open>Choice of the storage medium\<close>

text \<open>
  C6, as amended.  \<^verbatim>\<open>getStorageType\<close> probes a medium by writing and deleting a sentinel
  key, and never reads it back.  It returns \<^verbatim>\<open>localStorage\<close> when both calls succeed there;
  otherwise (a throw on the write or on the delete) it probes \<^verbatim>\<open>sessionStorage\<close> in the same
  way and returns it when both calls succeed; otherwise it returns \<^verbatim>\<open>unavailable\<close>.  The
  first call is always the write to \<^verbatim>\<open>localStorage\<close>.
\<close>

theorem getStorageType_probe:
  "getStorageType env =
     (if \<not> setItem_throws (local_medium env) \<and> \<not> removeItem_throws (local_medium env)
      then LocalStorage
      else if \<not> setItem_throws (session_medium env) \<and> \<not> removeItem_throws (session_medium env)
      then SessionStorage
      else Unavailable)
   \<and> (\<forall>which. GetItem which \<notin> set (snd (getStorageType_run env)))
   \<and> take 1 (snd (getStorageType_run env)) = [SetItem LocalStorage]"
  by (simp add: getStorageType_def getStorageType_run_def storage_test_def)

theorem getStorageType_probe_witness:
  "getStorageType working_env = LocalStorage
   \<and> getStorageType private_mode_env = SessionStorage
   \<and> getStorageType blocked_env = Unavailable"
  using getStorageType_probe [of working_env] getStorageType_probe [of private_mode_env]
    getStorageType_probe [of blocked_env]
  by (simp add: working_env_def private_mode_env_def blocked_env_def)

text \<open>
  C6 as stated fails: the calls of a probe are a write and a delete, with no read between
  them, on a working \<^verbatim>\<open>localStorage\<close> as well as on the fallback.
\<close>

theorem getStorageType_no_read_counterexample:
  "getStorageType_run working_env = (LocalStorage, [SetItem LocalStorage, RemoveItem LocalStorage])
   \<and> getStorageType_run private_mode_env
       = (SessionStorage, [SetItem LocalStorage, SetItem SessionStorage, RemoveItem SessionStorage])"
  by (simp add: getStorageType_run_def storage_test_def working_env_def private_mode_env_def)

section \<open>Notifications without SessionMetadata\<close>

text \<open>
  C10.  A storage notification whose value is \<^verbatim>\<open>null\<close> or empty, or parses to a value
  without SessionMetadata, leaves the whole store as it was and logs nothing, so the
  failure counter is not incremented; the listener returns, whatever the writes of
  \<^verbatim>\<open>persist\<close> would do.  The record that a tab persists after \<^verbatim>\<open>clearConfig\<close> is such a
  value: a clear in one tab does not reach the others.
\<close>

theorem notification_without_session_ignored:
  assumes "newValue event = None \<or> newValue event = Some EmptyString
           \<or> (\<exists>v. newValue event = Some (Json v) \<and> state_sessionConfig v = None)"
  shows "storage_listener w c event store = (Returned store, [])"
  using assms
  by (auto simp add: storage_listener_def storage_listener_try_def JSON_parse_def
      state_sessionConfig_def)

theorem clear_is_not_propagated_witness:
  "storage_listener Write_succeeds (at_time 2000)
      (notification (partialize (store_of (clearConfig Write_succeeds initial_store))))
      (tab_with (predefined_dice 20) 1000)
     = (Returned (tab_with (predefined_dice 20) 1000), [])
   \<and> storage_listener Write_succeeds (at_time 2000)
      \<lparr>key = Some ''dice-config-store'', newValue = None\<rparr>
      (tab_with (predefined_dice 20) 1000)
     = (Returned (tab_with (predefined_dice 20) 1000), [])"
proof -
  have a: "newValue (notification (partialize (store_of (clearConfig Write_succeeds initial_store)))) = None
           \<or> newValue (notification (partialize (store_of (clearConfig Write_succeeds initial_store))))
               = Some EmptyString
           \<or> (\<exists>v. newValue (notification (partialize (store_of (clearConfig Write_succeeds initial_store))))
                     = Some (Json v)
                 \<and> state_sessionConfig v = None)"
    by (simp add: notification_def partialize_def clearConfig_def initial_store_def
        state_sessionConfig_def)
  have b: "newValue \<lparr>key = Some ''dice-config-store'', newValue = None\<rparr> = None
           \<or> newValue \<lparr>key = Some ''dice-config-store'', newValue = None\<rparr> = Some EmptyString
           \<or> (\<exists>v. newValue \<lparr>key = Some ''dice-config-store'', newValue = None\<rparr> = Some (Json v)
                 \<and> state_sessionConfig v = None)"
    by simp
  show ?thesis
    using notification_without_session_ignored [OF a] notification_without_session_ignored [OF b]
    by simp
qed

section \<open>Idempotence of reconciliation\<close>

text \<open>
  C2, as amended.  For a notification that carries a Configuration with its
  SessionMetadata, and whose timestamp is not later than the tab's clock when the
  notification is first applied, applying it a second time leaves the store as the first
  application left it (and logs nothing).
\<close>

theorem reconciliation_idempotent_when_not_future:
  assumes "newValue event = Some (Json (PState (Some cfg) (Some sc)))"
      and "timestamp sc \<le> now c1"
  shows "storage_listener w2 c2 event (store_of (fst (storage_listener w1 c1 event store)))
           = (Returned (store_of (fst (storage_listener w1 c1 event store))), [])"
  using assms
  by (cases w1)
    (auto simp add: storage_listener_def storage_listener_try_def JSON_parse_def
      state_sessionConfig_def state_config_def adopt_def timestamp_or_0_eq
      setConfig_def resetSyncRetry_def incrementSyncRetry_def Let_def split: option.splits)

theorem reconciliation_idempotent_when_not_future_witness:
  "storage_listener Write_succeeds (at_time 7000)
      (notification (remote_record (predefined_dice 8) 5000))
      (store_of (fst (storage_listener Write_succeeds (at_time 6000)
              (notification (remote_record (predefined_dice 8) 5000)) initial_store)))
     = (Returned (store_of (fst (storage_listener Write_succeeds (at_time 6000)
              (notification (remote_record (predefined_dice 8) 5000)) initial_store))), [])
   \<and> config (store_of (fst (storage_listener Write_succeeds (at_time 6000)
                (notification (remote_record (predefined_dice 8) 5000)) initial_store)))
       = Some (predefined_dice 8)"
proof -
  obtain sc where nv: "newValue (notification (remote_record (predefined_dice 8) 5000))
                         = Some (Json (PState (Some (predefined_dice 8)) (Some sc)))"
    and ts: "timestamp sc = 5000"
    by (simp add: notification_def remote_record_def partialize_def setConfig_def at_time_def)
  have le: "timestamp sc \<le> now (at_time 6000)" using ts by (simp add: at_time_def)
  have adopted: "config (store_of (fst (storage_listener Write_succeeds (at_time 6000)
                (notification (remote_record (predefined_dice 8) 5000)) initial_store)))
       = Some (predefined_dice 8)"
    by (simp add: storage_listener_def storage_listener_try_def JSON_parse_def
        state_sessionConfig_def state_config_def adopt_def timestamp_or_0_eq notification_def
        remote_record_def partialize_def setConfig_def resetSyncRetry_def at_time_def
        initial_store_def)
  show ?thesis
    using reconciliation_idempotent_when_not_future
        [OF nv le, of Write_succeeds "at_time 7000" Write_succeeds initial_store] adopted
    by simp
qed

text \<open>
  C2 as stated fails.  The tab sets 20 sides at time 1000000; a notification stamped
  1001000 (one second ahead) is applied at 1000100 and again at 1000200.  Each
  application adopts it through \<^verbatim>\<open>setConfig\<close>, which stamps the local clock, so the second
  application changes the store: the timestamp moves from 1000100 to 1000200.
\<close>

theorem reconciliation_future_timestamp_counterexample:
  "map_option timestamp (sessionConfig (store_of (fst (storage_listener Write_succeeds (at_time 1000100)
      (notification (remote_record (predefined_dice 8) 1001000))
      (tab_with (predefined_dice 20) 1000000))))) = Some 1000100
   \<and> map_option timestamp (sessionConfig (store_of (fst (storage_listener Write_succeeds (at_time 1000200)
      (notification (remote_record (predefined_dice 8) 1001000))
      (store_of (fst (storage_listener Write_succeeds (at_time 1000100)
        (notification (remote_record (predefined_dice 8) 1001000))
        (tab_with (predefined_dice 20) 1000000)))))))) = Some 1000200
   \<and> store_of (fst (storage_listener Write_succeeds (at_time 1000200)
      (notification (remote_record (predefined_dice 8) 1001000))
      (store_of (fst (storage_listener Write_succeeds (at_time 1000100)
        (notification (remote_record (predefined_dice 8) 1001000))
        (tab_with (predefined_dice 20) 1000000))))))
     \<noteq> store_of (fst (storage_listener Write_succeeds (at_time 1000100)
        (notification (remote_record (predefined_dice 8) 1001000))
        (tab_with (predefined_dice 20) 1000000)))"
  by (simp add: storage_listener_def storage_listener_try_def JSON_parse_def
      state_sessionConfig_def state_config_def adopt_def timestamp_or_0_eq notification_def
      remote_record_def partialize_def tab_with_def setConfig_def resetSyncRetry_def at_time_def
      initial_store_def)

section \<open>Custom-sides validation\<close>

lemma trim_Nil: "(trim s = []) = list_all is_space s"
proof -
  have "(\<forall>x\<in>set (dropWhile is_space s). is_space x) = (\<forall>x\<in>set s. is_space x)"
  proof
    assume a: "\<forall>x\<in>set (dropWhile is_space s). is_space x"
    have "dropWhile is_space s = []"
    proof (rule ccontr)
      assume n: "dropWhile is_space s \<noteq> []"
      then have "\<not> is_space (hd (dropWhile is_space s))" by (rule hd_dropWhile)
      moreover have "hd (dropWhile is_space s) \<in> set (dropWhile is_space s)" using n by simp
      ultimately show False using a by blast
    qed
    then show "\<forall>x\<in>set s. is_space x" by (simp add: dropWhile_eq_Nil_conv)
  next
    assume "\<forall>x\<in>set s. is_space x"
    then show "\<forall>x\<in>set (dropWhile is_space s). is_space x"
      by (meson set_dropWhileD)
  qed
  then show ?thesis
    by (simp add: trim_def dropWhile_eq_Nil_conv list_all_iff)
qed

lemma digit_not_special:
  "is_digit ch \<Longrightarrow> \<not> is_space ch \<and> ch \<noteq> CHR ''.'' \<and> ch \<noteq> CHR '','' \<and> ch \<noteq> CHR ''-'' \<and> ch \<noteq> CHR ''+''"
  by (auto simp add: is_digit_def is_space_def)

lemma only_digits_facts:
  assumes "only_digits s"
  shows "\<not> list_all is_space s" and "\<not> string_includes s CHR ''.''" and "\<not> string_includes s CHR '',''"
    and "parseInt s = number_of_nat (decimal_value s)"
proof -
  from assms obtain ch t where s: "s = ch # t" and d: "is_digit ch" and all: "list_all is_digit s"
    by (cases s) (auto simp add: only_digits_def)
  show "\<not> list_all is_space s" using s d digit_not_special by auto
  show "\<not> string_includes s CHR ''.''" using all digit_not_special
    by (auto simp add: string_includes_def list_all_iff)
  show "\<not> string_includes s CHR '',''" using all digit_not_special
    by (auto simp add: string_includes_def list_all_iff)
  have tw: "takeWhile is_digit s = s" using all by (simp add: takeWhile_eq_all_conv list_all_iff)
  have dw: "dropWhile is_space s = s" using s d digit_not_special by simp
  have h: "hd s \<noteq> CHR ''-''" "hd s \<noteq> CHR ''+''" using s d digit_not_special by auto
  show "parseInt s = number_of_nat (decimal_value s)"
    using tw dw h s by (simp add: parseInt_def Let_def)
qed

lemma numeric_checks_number_of_nat:
  "errorPriority (numeric_checks (number_of_nat n)) =
     (if n < 2 ^ 1024 - 2 ^ 970 then (if 2 \<le> n \<and> n \<le> 1000 then None else Some 2) else Some 1)"
  "isValid (numeric_checks (number_of_nat n)) = (2 \<le> n \<and> n \<le> 1000)"
  by (auto simp add: numeric_checks_def number_of_nat_def isNaN_def Number_isInteger_def
      js_less_def js_greater_def MIN_SIDES_def MAX_SIDES_def invalid_def)


lemma diceConfigValidateCustom_digits:
  assumes "only_digits s"
  shows "diceConfigValidateCustom (CustomBody (Str s))
           = numeric_checks (number_of_nat (decimal_value s))"
  using only_digits_facts [OF assms] assms
  by (simp add: diceConfigValidateCustom_def inputSchema_def z_number_def trim_Nil)

text \<open>
  The claim C7 on every input whose number is finite.  For a body that is not a string of
  digits reaching \<open>2\<^sup>1\<^sup>0\<^sup>2\<^sup>4 - 2\<^sup>9\<^sup>7\<^sup>0\<close>: the input is valid exactly when it denotes an
  integer in [2, 1000]; an input that denotes nothing (presence) or an integer outside
  [2, 1000] (range) gets priority 2; an input that is not an integer (format) gets
  priority 1; a valid input gets no priority.
\<close>

lemma diceConfigValidateCustom_finite:
  assumes fin: "\<And>s. body = CustomBody (Str s) \<Longrightarrow> only_digits s
                  \<Longrightarrow> decimal_value s < 2 ^ 1024 - 2 ^ 970"
  shows "isValid (diceConfigValidateCustom body)
           = (case denotes body of Integer n \<Rightarrow> 2 \<le> n \<and> n \<le> 1000 | _ \<Rightarrow> False)
       \<and> errorPriority (diceConfigValidateCustom body)
           = (case denotes body of
                Nothing_entered \<Rightarrow> Some 2
              | Not_an_integer \<Rightarrow> Some 1
              | Integer n \<Rightarrow> if 2 \<le> n \<and> n \<le> 1000 then None else Some 2)"
proof (cases body)
  case CustomBody_not_an_object
  then show ?thesis
    by (simp add: diceConfigValidateCustom_def inputSchema_def denotes_def invalid_def)
next
  case (CustomBody v)
  show ?thesis
  proof (cases v)
    case Other
    with CustomBody show ?thesis
      by (simp add: diceConfigValidateCustom_def inputSchema_def z_number_def denotes_def invalid_def)
  next
    case (Num x)
    with CustomBody show ?thesis
      by (cases x)
        (auto simp add: diceConfigValidateCustom_def inputSchema_def z_number_def denotes_def
          invalid_def numeric_checks_def isNaN_def Number_isInteger_def js_less_def js_greater_def
          MIN_SIDES_def MAX_SIDES_def)
  next
    case (Str s)
    show ?thesis
    proof (cases "only_digits s")
      case True
      have nb: "\<not> list_all is_space s" using only_digits_facts(1) [OF True] .
      have bound: "decimal_value s < 2 ^ 1024 - 2 ^ 970"
        using fin CustomBody Str True by simp
      have "diceConfigValidateCustom body = numeric_checks (number_of_nat (decimal_value s))"
        using CustomBody Str True by (simp add: diceConfigValidateCustom_digits)
      then show ?thesis
        using CustomBody Str True nb bound
        by (simp add: denotes_def numeric_checks_number_of_nat)
    next
      case False
      then show ?thesis
        using CustomBody Str
        by (simp add: diceConfigValidateCustom_def inputSchema_def z_number_def denotes_def
            invalid_def trim_Nil)
    qed
  qed
qed

text \<open>
  The three examples of C7: \<^verbatim>\<open>"12.5"\<close> is invalid with priority 1, \<^verbatim>\<open>"1"\<close> is invalid with
  priority 2, \<^verbatim>\<open>"20"\<close> is valid.
\<close>

lemma diceConfigValidateCustom_examples:
  "diceConfigValidateCustom (CustomBody (Str ''12.5'')) = invalid Inteiros_sem_casas_decimais 1
   \<and> diceConfigValidateCustom (CustomBody (Str ''1'')) = invalid Pelo_menos_2_lados 2
   \<and> diceConfigValidateCustom (CustomBody (Str ''20''))
       = \<lparr>isValid = True, status = VALID, errorMessage = None, errorPriority = None\<rparr>"
proof -
  have e1: "diceConfigValidateCustom (CustomBody (Str ''12.5'')) = invalid Inteiros_sem_casas_decimais 1"
    by (simp add: diceConfigValidateCustom_def inputSchema_def z_number_def trim_def is_space_def
        string_includes_def)
  have d1: "only_digits ''1''" and d20: "only_digits ''20''"
    by (simp_all add: only_digits_def is_digit_def)
  have v1: "decimal_value ''1'' = 1" and v20: "decimal_value ''20'' = 20"
    by (simp_all add: decimal_value_def digit_value_def)
  have e2: "diceConfigValidateCustom (CustomBody (Str ''1'')) = invalid Pelo_menos_2_lados 2"
    by (simp add: diceConfigValidateCustom_digits [OF d1] v1 numeric_checks_def number_of_nat_def
        isNaN_def Number_isInteger_def js_less_def MIN_SIDES_def)
  have e3: "diceConfigValidateCustom (CustomBody (Str ''20''))
       = \<lparr>isValid = True, status = VALID, errorMessage = None, errorPriority = None\<rparr>"
    by (simp add: diceConfigValidateCustom_digits [OF d20] v20 numeric_checks_def number_of_nat_def
        isNaN_def Number_isInteger_def js_less_def js_greater_def MIN_SIDES_def MAX_SIDES_def)
  from e1 e2 e3 show ?thesis by simp
qed

lemma decimal_value_snoc: "decimal_value (ds @ [ch]) = 10 * decimal_value ds + digit_value ch"
  by (simp add: decimal_value_def)

lemma decimal_value_zeros: "decimal_value (ds @ replicate k CHR ''0'') = decimal_value ds * 10 ^ k"
proof (induction k)
  case 0
  show ?case by simp
next
  case (Suc k)
  have "decimal_value (ds @ replicate (Suc k) CHR ''0'')
          = decimal_value ((ds @ replicate k CHR ''0'') @ [CHR ''0''])"
    by (simp add: replicate_append_same)
  also have "\<dots> = 10 * decimal_value (ds @ replicate k CHR ''0'') + digit_value CHR ''0''"
    by (rule decimal_value_snoc)
  finally show ?case
    using Suc by (simp add: digit_value_def)
qed

lemma huge_digits_value: "decimal_value huge_digits = 10 ^ 309"
  using decimal_value_zeros [of "''1''" 309]
  by (simp add: huge_digits_def decimal_value_def digit_value_def)

lemma huge_digits_only_digits: "only_digits huge_digits"
  by (simp add: huge_digits_def only_digits_def is_digit_def list_all_iff)

text \<open>
  C7, the code at an input where it departs from the claim.  The string of a one followed
  by 309 zeros consists of digits and denotes the integer \<open>10\<^sup>3\<^sup>0\<^sup>9\<close>, which is above
  1000: a range violation, priority 2 by the claim.  \<^verbatim>\<open>parseInt\<close> makes \<^verbatim>\<open>Infinity\<close> of it,
  \<^verbatim>\<open>Number.isInteger\<close> rejects that, and the service answers with the message for decimals
  and priority 1, before it reaches its range checks.
\<close>

theorem diceConfigValidateCustom_huge_integer:
  "only_digits huge_digits
   \<and> denotes (CustomBody (Str huge_digits)) = Integer (10 ^ 309)
   \<and> parseInt huge_digits = PosInfinity
   \<and> diceConfigValidateCustom (CustomBody (Str huge_digits))
       = invalid Inteiros_sem_casas_decimais 1
   \<and> errorPriority (diceConfigValidateCustom (CustomBody (Str huge_digits))) = Some 1"
proof -
  have over: "(10::nat) ^ 309 \<ge> 2 ^ 1024 - 2 ^ 970"
    by simp
  have inf: "number_of_nat (decimal_value huge_digits) = PosInfinity"
    using over by (simp only: huge_digits_value number_of_nat_def if_True)
  have p: "parseInt huge_digits = PosInfinity"
    using only_digits_facts(4) [OF huge_digits_only_digits] inf by simp
  have d: "denotes (CustomBody (Str huge_digits)) = Integer (10 ^ 309)"
    using huge_digits_only_digits only_digits_facts(1) [OF huge_digits_only_digits]
    by (simp add: denotes_def huge_digits_value)
  have r: "diceConfigValidateCustom (CustomBody (Str huge_digits))
             = invalid Inteiros_sem_casas_decimais 1"
    by (simp add: diceConfigValidateCustom_digits [OF huge_digits_only_digits] inf
        numeric_checks_def isNaN_def Number_isInteger_def)
  from huge_digits_only_digits d p r show ?thesis
    by (simp add: invalid_def)
qed

section \<open>Setting the configuration on the server\<close>

lemma digit_value_digit_char: "d < 10 \<Longrightarrow> digit_value (digit_char d) = d"
proof -
  assume "d < 10"
  then have "d \<in> {0, 1, 2, 3, 4, 5, 6, 7, 8, 9}" by auto
  then show ?thesis
    by (auto simp add: digit_value_def digit_char_def)
qed

lemma decimal_value_digits: "decimal_value (digits n) = n"
proof (induction n rule: digits.induct)
  case (1 n)
  show ?case
  proof (cases "n < 10")
    case True
    then show ?thesis
      using digit_value_digit_char [of n]
      by (simp add: digits.simps [of n] decimal_value_def)
  next
    case False
    then show ?thesis
      using 1 digit_value_digit_char [of "n mod 10"]
      by (simp add: digits.simps [of n] decimal_value_snoc)
  qed
qed

lemma setConfigSchema_Some:
  "(setConfigSchema body = Some (n, m))
     = (n > 0 \<and> body = SetBody (Num (Finite (of_int n))) (Str (method_name m)))"
proof (cases body)
  case SetBody_not_an_object
  then show ?thesis by (simp add: setConfigSchema_def)
next
  case (SetBody sides meth)
  show ?thesis
  proof (cases sides)
    case (Num x)
    show ?thesis
    proof (cases x)
      case (Finite r)
      show ?thesis
        using SetBody Num Finite
        by (cases m)
          (auto simp add: setConfigSchema_def z_number_def Number_isInteger_def js_greater_def
            selectionMethodSchema_def method_name_def split: option.splits if_splits)
    qed (use SetBody Num in \<open>auto simp add: setConfigSchema_def z_number_def Number_isInteger_def
            js_greater_def split: option.splits\<close>)
  qed (use SetBody in \<open>auto simp add: setConfigSchema_def z_number_def\<close>)
qed


lemma method_name_eq:
  "(method_name m = ''predefined'') = (m = Predefined)" "(method_name m = ''custom'') = (m = Custom)"
  by (cases m; simp add: method_name_def)+

lemma valid_set_body_shape:
  assumes "valid_set_body body"
  obtains r mm where "body = SetBody (Num (Finite r)) (Str mm)"
proof (cases body)
  case SetBody_not_an_object
  with assms show ?thesis by (simp add: valid_set_body_def)
next
  case (SetBody sides meth)
  show ?thesis
  proof (cases sides)
    case (Num x)
    show ?thesis
    proof (cases x)
      case (Finite r)
      show ?thesis
      proof (cases meth)
        case (Str mm)
        with SetBody Num Finite that show ?thesis by simp
      qed (use assms SetBody Num Finite in \<open>simp_all add: valid_set_body_def\<close>)
    qed (use assms SetBody Num in \<open>simp_all add: valid_set_body_def\<close>)
  qed (use assms SetBody in \<open>simp_all add: valid_set_body_def\<close>)
qed

lemma valid_set_body_schema:
  "valid_set_body body \<Longrightarrow> \<exists>n m. setConfigSchema body = Some (n, m)"
proof -
  assume v: "valid_set_body body"
  then obtain r mm where b: "body = SetBody (Num (Finite r)) (Str mm)"
    by (rule valid_set_body_shape)
  from v b have "(mm = ''predefined'' \<or> mm = ''custom'') \<and> of_int \<lfloor>r\<rfloor> = r \<and> r > 0"
    by (auto simp add: valid_set_body_def)
  then show ?thesis
    using b
    by (auto simp add: setConfigSchema_def z_number_def Number_isInteger_def js_greater_def
        selectionMethodSchema_def)
qed

lemma valid_set_body_of_schema:
  "setConfigSchema body = Some (n, m) \<Longrightarrow>
     valid_set_body body = (if m = Predefined then predefinedSidesSchema n else customSidesSchema n = [])"
proof -
  assume "setConfigSchema body = Some (n, m)"
  then have b: "body = SetBody (Num (Finite (of_int n))) (Str (method_name m))" and "n > 0"
    by (simp_all add: setConfigSchema_Some)
  show ?thesis
  proof (cases m)
    case Predefined
    then show ?thesis using b
      by (auto simp add: valid_set_body_def method_name_def predefinedSidesSchema_def
          DICE_PREDEFINED_OPTIONS_SIDES_def)
  next
    case Custom
    then show ?thesis using b
      by (auto simp add: valid_set_body_def method_name_def customSidesSchema_def
          MIN_SIDES_def MAX_SIDES_def)
  qed
qed

lemma round_to_even_near:
  assumes "b > 0"
  shows "\<bar>2 * (round_to_even a b * b - a)\<bar> \<le> b"
proof -
  define q where "q = a div b"
  define r where "r = a mod b"
  have a: "a = q * b + r" by (simp add: q_def r_def)
  have r: "0 \<le> r" "r < b" using assms by (simp_all add: r_def)
  have m: "round_to_even a b = q \<or> round_to_even a b = q + 1"
    by (auto simp add: round_to_even_def Let_def q_def)
  have lo: "round_to_even a b = q \<Longrightarrow> 2 * r \<le> b"
    by (auto simp add: round_to_even_def Let_def q_def r_def split: if_splits)
  have hi: "round_to_even a b = q + 1 \<Longrightarrow> 2 * r \<ge> b"
    by (auto simp add: round_to_even_def Let_def q_def r_def split: if_splits)
  from m show ?thesis
  proof
    assume e: "round_to_even a b = q"
    then have "round_to_even a b * b - a = - r" using a by simp
    then show ?thesis using lo [OF e] r by simp
  next
    assume e: "round_to_even a b = q + 1"
    then have "round_to_even a b * b - a = b - r" using a by (simp add: algebra_simps)
    then show ?thesis using hi [OF e] r by simp
  qed
qed

lemma sides_le_power:
  assumes "sides \<ge> 1"
  shows "sides \<le> 2 ^ nat (bitlen (sides - 1))"
proof (cases "sides = 1")
  case True
  then show ?thesis by simp
next
  case False
  then have "sides - 1 > 0" using assms by simp
  then have "sides - 1 < 2 ^ nat (bitlen (sides - 1))" using bitlen_bounds by blast
  then show ?thesis by simp
qed

text \<open>The double \<^verbatim>\<open>1 / sides\<close> is within a relative error of \<open>2\<^sup>-\<^sup>5\<^sup>3\<close> of the quotient.\<close>

lemma one_over_error:
  assumes "sides \<ge> 1"
  shows "\<bar>one_over sides * of_int sides - 1\<bar> \<le> 1 / 2 ^ 53"
proof -
  define k where "k = nat (bitlen (sides - 1))"
  define e where "e = nat (52 + bitlen (sides - 1))"
  define m where "m = round_to_even (2 ^ e) sides"
  define d :: real where "d = of_int m * of_int sides - 2 ^ e"
  have e: "e = 52 + k" using bitlen_nonneg [of "sides - 1"] by (simp add: e_def k_def nat_add_distrib)
  have le: "sides \<le> 2 ^ k" using sides_le_power [OF assms] by (simp add: k_def)
  have "\<bar>2 * (m * sides - 2 ^ e)\<bar> \<le> sides"
    using round_to_even_near [of sides "2 ^ e"] assms by (simp add: m_def)
  then have "\<bar>2 * (m * sides - 2 ^ e)\<bar> \<le> 2 ^ k" using le by linarith
  then have "real_of_int \<bar>2 * (m * sides - 2 ^ e)\<bar> \<le> real_of_int (2 ^ k)"
    by (rule iffD2 [OF of_int_le_iff])
  then have n: "\<bar>2 * d\<bar> \<le> 2 ^ k"
    by (simp add: d_def)
  have "one_over sides = of_int m / 2 ^ e"
    by (simp add: one_over_def Let_def e_def m_def)
  then have "one_over sides * of_int sides - 1 = d / 2 ^ e"
    by (simp add: d_def field_simps)
  then have "\<bar>one_over sides * of_int sides - 1\<bar> = \<bar>2 * d\<bar> / (2 * 2 ^ e)"
    by (simp add: abs_mult)
  also have "\<dots> \<le> 2 ^ k / (2 * 2 ^ e)"
    using n by (simp add: divide_right_mono)
  also have "\<dots> = 1 / 2 ^ 53"
    by (simp add: e power_add)
  finally show ?thesis .
qed

lemma bitlen_2: "bitlen 2 = 2"
  by (simp add: compute_bitlen [of 2] compute_bitlen [of 1])

lemma bitlen_19: "bitlen 19 = 5"
  by (simp add: compute_bitlen [of 19] compute_bitlen [of 9] compute_bitlen [of 4]
      compute_bitlen [of 2] compute_bitlen [of 1])

lemma one_over_3: "one_over 3 = 6004799503160661 / 18014398509481984"
  by (simp add: one_over_def bitlen_2 round_to_even_def Let_def)

lemma one_over_20: "one_over 20 = 7205759403792794 / 144115188075855872"
  by (simp add: one_over_def bitlen_19 round_to_even_def Let_def)

text \<open>
  C8, as amended.  \<^verbatim>\<open>diceConfigSet\<close> throws exactly when the body is not valid in the words
  of the claim (a body that is not of the request's shape is not valid either); whatever it
  throws is a \<^verbatim>\<open>ServiceError\<close> with code \<^verbatim>\<open>VALIDATION_ERROR\<close> and status 400.  Otherwise it
  returns the sides and method of the body with the derived fields: range from 1 to the
  sides, label \<^verbatim>\<open>D\<close> followed by the decimal digits of the sides, and as per-face
  probability the double \<^verbatim>\<open>1 / sides\<close>, which is the quotient rounded to 53 significant bits
  and lies within a relative error of \<open>2\<^sup>-\<^sup>5\<^sup>3\<close> of one over the sides.
\<close>

theorem diceConfigSet_validation:
  "(\<exists>e. diceConfigSet body = Inl e) = (\<not> valid_set_body body)
   \<and> (\<forall>e. diceConfigSet body = Inl e \<longrightarrow> code e = ''VALIDATION_ERROR'' \<and> statusCode e = 400)
   \<and> (\<forall>cfg. diceConfigSet body = Inr cfg \<longrightarrow>
         body = SetBody (Num (Finite (of_int (diceSides cfg)))) (Str (method_name (selectionMethod cfg)))
         \<and> diceSides cfg > 0
         \<and> probabilityRange_min cfg = 1
         \<and> probabilityRange_max cfg = diceSides cfg
         \<and> individualProbability cfg = one_over (diceSides cfg)
         \<and> \<bar>individualProbability cfg * of_int (diceSides cfg) - 1\<bar> \<le> 1 / 2 ^ 53
         \<and> displayFormat cfg = CHR ''D'' # digits (nat (diceSides cfg))
         \<and> decimal_value (tl (displayFormat cfg)) = nat (diceSides cfg))"
proof (cases "setConfigSchema body")
  case None
  then have "\<not> valid_set_body body" using valid_set_body_schema by fastforce
  then show ?thesis using None by (simp add: diceConfigSet_def)
next
  case (Some a)
  obtain n m where a: "a = (n, m)" by (cases a)
  have s: "setConfigSchema body = Some (n, m)" using Some a by simp
  have b: "body = SetBody (Num (Finite (of_int n))) (Str (method_name m))" and pos: "n > 0"
    using s by (simp_all add: setConfigSchema_Some)
  have v: "valid_set_body body = (if m = Predefined then predefinedSidesSchema n else customSidesSchema n = [])"
    using valid_set_body_of_schema [OF s] .
  have err: "\<bar>one_over n * of_int n - 1\<bar> \<le> 1 / 2 ^ 53"
    using one_over_error [of n] pos by simp
  show ?thesis
  proof (cases "valid_set_body body")
    case True
    then have "diceConfigSet body =
        Inr \<lparr>diceSides = n, selectionMethod = m, probabilityRange_min = 1, probabilityRange_max = n,
             individualProbability = one_over n, displayFormat = ''D'' @ number_to_string n\<rparr>"
      using v s by (auto simp add: diceConfigSet_def calculateProbability_def split: if_splits)
    then show ?thesis
      using True b pos err by (auto simp add: number_to_string_def decimal_value_digits)
  next
    case False
    then have "\<exists>e. diceConfigSet body = Inl e \<and> code e = ''VALIDATION_ERROR'' \<and> statusCode e = 400"
      using v s by (auto simp add: diceConfigSet_def split: if_splits list.splits)
    then show ?thesis using False by auto
  qed
qed

theorem diceConfigSet_validation_witness:
  "diceConfigSet (SetBody (Num (Finite 7)) (Str ''predefined''))
     = Inl \<lparr>code = ''VALIDATION_ERROR'', error_message = Must_be_one_of_4_6_8_10_12_20, statusCode = 400\<rparr>
   \<and> diceConfigSet (SetBody (Num (Finite 1001)) (Str ''custom''))
     = Inl \<lparr>code = ''VALIDATION_ERROR'', error_message = Maximo_de_1000_lados, statusCode = 400\<rparr>
   \<and> diceConfigSet (SetBody (Num (Finite 20)) (Str ''predefined''))
     = Inr \<lparr>diceSides = 20, selectionMethod = Predefined, probabilityRange_min = 1,
            probabilityRange_max = 20,
            individualProbability = 7205759403792794 / 144115188075855872,
            displayFormat = ''D20''\<rparr>
   \<and> valid_set_body (SetBody (Num (Finite 20)) (Str ''predefined''))
   \<and> \<not> valid_set_body (SetBody (Num (Finite 7)) (Str ''predefined''))"
  using diceConfigSet_validation [of "SetBody (Num (Finite 7)) (Str ''predefined'')"]
    diceConfigSet_validation [of "SetBody (Num (Finite 20)) (Str ''predefined'')"]
  by (simp add: diceConfigSet_def setConfigSchema_def z_number_def Number_isInteger_def js_greater_def
      selectionMethodSchema_def predefinedSidesSchema_def DICE_PREDEFINED_OPTIONS_SIDES_def
      customSidesSchema_def MIN_SIDES_def MAX_SIDES_def
      calculateProbability_def one_over_20 number_to_string_def digits.simps digit_char_def
      valid_set_body_def method_name_def decimal_value_def digit_value_def)

text \<open>
  C8 as stated fails in its per-face probability: for 3 sides the service returns the
  double \<open>6004799503160661 / 2\<^sup>5\<^sup>4\<close>, which is not one third.
\<close>

theorem diceConfigSet_three_sides_counterexample:
  "diceConfigSet (SetBody (Num (Finite 3)) (Str ''custom''))
     = Inr \<lparr>diceSides = 3, selectionMethod = Custom, probabilityRange_min = 1,
            probabilityRange_max = 3,
            individualProbability = 6004799503160661 / 18014398509481984,
            displayFormat = ''D3''\<rparr>
   \<and> (6004799503160661 / 18014398509481984 :: real) \<noteq> 1 / 3"
  by (simp add: diceConfigSet_def setConfigSchema_def z_number_def Number_isInteger_def js_greater_def
      selectionMethodSchema_def customSidesSchema_def MIN_SIDES_def MAX_SIDES_def
      calculateProbability_def one_over_3 number_to_string_def digits.simps digit_char_def)

section \<open>Reconciliation by timestamp\<close>

text \<open>
  The rule on both paths, in a tab whose writes succeed, for a record that carries a
  Configuration with its SessionMetadata: it is adopted exactly when its timestamp is
  strictly greater than the timestamp the handler compares with (0 when there is none).
  The storage listener compares with the store; a polling tick compares with the state its
  interval captured.
\<close>

lemma storage_listener_newer_wins:
  "storage_listener Write_succeeds c (notification (Json (PState (Some cfg) (Some sc)))) store
     = (if timestamp sc > timestamp_or_0 (sessionConfig store)
        then (adopt Write_succeeds c (Some cfg) store, [])
        else (Returned store, []))"
  by (simp add: storage_listener_def storage_listener_try_def notification_def JSON_parse_def
      state_sessionConfig_def state_config_def adopt_def setConfig_def resetSyncRetry_def)

lemma polling_tick_newer_wins:
  assumes "storageType state \<noteq> Unavailable"
      and "stored_item m state = ReadValue (Some (Json (PState (Some cfg) (Some sc))))"
  shows "polling_tick Write_succeeds c m state store
     = (if timestamp sc > timestamp_or_0 (sessionConfig state)
        then (adopt Write_succeeds c (Some cfg) store, [])
        else (Returned store, []))"
  using assms
  by (auto simp add: polling_tick_def polling_tick_try_def JSON_parse_def
      state_sessionConfig_def state_config_def adopt_def setConfig_def resetSyncRetry_def
      timestamp_or_0_eq Let_def)

text \<open>
  The end-to-end example: after \<^verbatim>\<open>setConfig\<close> with 20 sides at time 1000000, a notification
  with 8 sides stamped one second later yields 8 sides, and one stamped one second earlier
  is ignored.
\<close>

lemma end_to_end_notification:
  "map_option diceSides (config (store_of (fst (storage_listener Write_succeeds (at_time 1000100)
      (notification (remote_record (predefined_dice 8) 1001000))
      (tab_with (predefined_dice 20) 1000000))))) = Some 8
   \<and> storage_listener Write_succeeds (at_time 1000100)
      (notification (remote_record (predefined_dice 8) 999000))
      (tab_with (predefined_dice 20) 1000000)
     = (Returned (tab_with (predefined_dice 20) 1000000), [])"
  by (simp add: storage_listener_def storage_listener_try_def JSON_parse_def
      state_sessionConfig_def state_config_def adopt_def timestamp_or_0_eq notification_def
      remote_record_def partialize_def tab_with_def setConfig_def resetSyncRetry_def at_time_def
      initial_store_def predefined_dice_def)

lemma polling_started_eq:
  "polling_started = (tab_with (predefined_dice 20) 1000000)\<lparr>syncRetryCount := 3, pollingActive := True\<rparr>"
  by (simp add: polling_started_def storage_listener_def storage_listener_try_def notification_def
      JSON_parse_def incrementSyncRetry_succeeds tab_with_def setConfig_def initial_store_def)

text \<open>
  C1, the code at an input where it departs from the claim.  In the tab described above
  the interval has captured the state in which polling started, and the later write does
  not replace it.  The next tick, at time 1002000, reads the tab's own record, whose
  timestamp 1000500 equals the tab's current timestamp.  The storage listener discards
  that record and leaves the store unchanged.  The polling tick compares it with the
  captured timestamp 1000000 and adopts it: the SessionMetadata is restamped to 1002000,
  polling is switched off, and the store is no longer the one before the tick.
\<close>

theorem polling_tick_readopts_own_record:
  "subscriber polling_started None = Some polling_started
   \<and> subscriber after_local_write (Some polling_started) = Some polling_started
   \<and> map_option timestamp (sessionConfig after_local_write) = Some 1000500
   \<and> map_option timestamp (state_sessionConfig (PState (config after_local_write) (sessionConfig after_local_write)))
       = Some 1000500
   \<and> storage_listener Write_succeeds (at_time 1002000) (notification (partialize after_local_write))
        after_local_write
       = (Returned after_local_write, [])
   \<and> map_option timestamp
        (sessionConfig (store_of (fst (polling_tick Write_succeeds (at_time 1002000) own_record_media
           polling_started after_local_write))))
       = Some 1002000
   \<and> \<not> pollingActive (store_of (fst (polling_tick Write_succeeds (at_time 1002000) own_record_media
           polling_started after_local_write)))
   \<and> store_of (fst (polling_tick Write_succeeds (at_time 1002000) own_record_media
           polling_started after_local_write))
       \<noteq> after_local_write"
  by (simp add: polling_started_eq after_local_write_def own_record_media_def subscriber_def
      polling_tick_def polling_tick_try_def stored_item_def storage_listener_def
      storage_listener_try_def notification_def partialize_def JSON_parse_def
      state_sessionConfig_def state_config_def adopt_def timestamp_or_0_eq tab_with_def
      setConfig_def resetSyncRetry_def at_time_def initial_store_def)

section \<open>Malformed payloads\<close>

text \<open>
  What holds of C9.  In a tab whose writes succeed the listener returns on every event, and
  what its \<^verbatim>\<open>try\<close> block throws is logged and counted as one failure.  A polling tick
  returns in every tab, since its \<^verbatim>\<open>catch\<close> block only logs; a read that throws or a
  value that does not parse is logged and the store, with its failure counter, stays as it
  was.
\<close>

lemma storage_listener_returns_where_writes_succeed:
  "returned (fst (storage_listener Write_succeeds c event store))"
proof -
  have "returned (incrementSyncRetry Write_succeeds s)" for s
    by (simp add: incrementSyncRetry_succeeds)
  then show ?thesis
    by (cases "storage_listener_try Write_succeeds c event store")
      (simp_all add: storage_listener_def)
qed

lemma malformed_notification_where_writes_succeed:
  assumes "key event = Some ''dice-config-store''" and "newValue event = Some Malformed"
  shows "storage_listener Write_succeeds c event store
           = (incrementSyncRetry Write_succeeds store, [(''Storage sync error:'', SyntaxError)])
         \<and> returned (incrementSyncRetry Write_succeeds store)
         \<and> syncRetryCount (store_of (incrementSyncRetry Write_succeeds store))
             = syncRetryCount store + 1"
  using assms
  by (simp add: storage_listener_def storage_listener_try_def JSON_parse_def
      incrementSyncRetry_succeeds)

lemma polling_tick_returns: "returned (fst (polling_tick w c m state store))"
  by (cases "polling_tick_try w c m state store") (simp_all add: polling_tick_def)

lemma polling_error_skips_tick:
  assumes "storageType state \<noteq> Unavailable"
      and "stored_item m state = ReadThrows \<or> stored_item m state = ReadValue (Some Malformed)"
  shows "\<exists>e. polling_tick w c m state store = (Returned store, [(''Polling sync error:'', e)])"
  using assms
  by (auto simp add: polling_tick_def polling_tick_try_def JSON_parse_def)

text \<open>
  C9, the code at an input where it departs from the claim.  In the tab whose
  \<^verbatim>\<open>localStorage\<close> throws on write, a notification whose value does not parse makes the
  \<^verbatim>\<open>try\<close> block throw; the \<^verbatim>\<open>catch\<close> block logs the error and calls
  \<^verbatim>\<open>incrementSyncRetry\<close>, whose \<^verbatim>\<open>set\<close> increments the counter and throws.  Nothing catches
  that: the listener does not return, the error is raised to its caller.  In a tab whose
  writes succeed the same notification is logged and counted, and the listener returns.
\<close>

theorem malformed_notification_raised_by_throwing_write:
  "storage_listener Write_throws (at_time 1000) (notification Malformed) fallback_store
     = (Thrown StorageError (fallback_store\<lparr>syncRetryCount := 1\<rparr>),
        [(''Storage sync error:'', SyntaxError)])
   \<and> \<not> returned (fst (storage_listener Write_throws (at_time 1000) (notification Malformed)
          fallback_store))
   \<and> storage_listener Write_succeeds (at_time 1000) (notification Malformed) fallback_store
     = (Returned (fallback_store\<lparr>syncRetryCount := 1\<rparr>),
        [(''Storage sync error:'', SyntaxError)])"
  by (simp add: storage_listener_def storage_listener_try_def notification_def JSON_parse_def
      incrementSyncRetry_throws incrementSyncRetry_succeeds fallback_store_def)

end
